theory Spec2Isabelle
  imports Main
begin

section \<open>Contract state: values, events, exceptions, call context\<close>

text \<open>
  The toy contracts are Python classes deriving from \<open>PySmartContract\<close>. A contract object
  is a record of its attributes; a method takes the call context and the object and gives
  back what the call produced (a returned value, or the exception it raised) together with
  the object as the call left it. Python integers are unbounded, hence \<open>int\<close>.
\<close>

datatype val = I int | S string

type_synonym event_log = "(string \<times> val list) list"

text \<open>A Python exception: its class name and its message.\<close>

datatype exn = Exn string string

datatype 'r outcome = Return 'r | Raise exn

text \<open>
  The ambient call context the contracts query through \<open>self.msg_sender()\<close> and
  \<open>self.block_number()\<close>, two methods of the base class: what they give back is a parameter
  of every call.
\<close>

record ctx =
  msg_sender :: string
  block_number :: int

text \<open>
  Modelled from the spec: \<open>PySmartContract.event\<close> (the base class is not among the
  sources). The spec's data model makes the event log an ordered, append-only sequence of
  \<open>(name, payload)\<close> pairs; \<open>self.event(name, a, b, ...)\<close> appends one pair. Likewise
  \<open>self.state_var(name, initial)\<close> is taken to give back the initial value it is passed,
  which the constructor stores in the attribute of the same name.
\<close>

definition event :: "string \<Rightarrow> val list \<Rightarrow> event_log \<Rightarrow> event_log" where
  "event name payload log = log @ [(name, payload)]"

text \<open>
  A Python dict, in insertion order. \<open>d.get(k, default)\<close> reads without changing the
  dict; \<open>d[k] = v\<close> replaces the value of a present key in place and appends an absent one.
\<close>

type_synonym ('k, 'v) dict = "('k \<times> 'v) list"

definition dict_get :: "('k, 'v) dict \<Rightarrow> 'k \<Rightarrow> 'v \<Rightarrow> 'v" where
  "dict_get d k dflt = (case map_of d k of None \<Rightarrow> dflt | Some v \<Rightarrow> v)"

fun dict_set :: "('k, 'v) dict \<Rightarrow> 'k \<Rightarrow> 'v \<Rightarrow> ('k, 'v) dict" where
  "dict_set [] k v = [(k, v)]"
| "dict_set ((k', v') # d) k v = (if k' = k then (k, v) # d else (k', v') # dict_set d k v)"

section \<open>contracts/Counter.py\<close>

record Counter =
  c_count :: int
  c_events :: event_log

definition Counter_init :: Counter where
  "Counter_init = \<lparr>c_count = 0, c_events = []\<rparr>"

definition Counter_increment :: "ctx \<Rightarrow> Counter \<Rightarrow> unit outcome \<times> Counter" where
  "Counter_increment c s =
     (let s1 = s\<lparr>c_count := c_count s + 1\<rparr>;
          s2 = s1\<lparr>c_events := event ''Incremented'' [I (c_count s1)] (c_events s1)\<rparr>
      in (Return (), s2))"

definition Counter_decrement :: "ctx \<Rightarrow> Counter \<Rightarrow> unit outcome \<times> Counter" where
  "Counter_decrement c s =
     (if c_count s > 0 then
        (let s1 = s\<lparr>c_count := c_count s - 1\<rparr>;
             s2 = s1\<lparr>c_events := event ''Decremented'' [I (c_count s1)] (c_events s1)\<rparr>
         in (Return (), s2))
      else (Return (), s))"

definition Counter_get_count :: "ctx \<Rightarrow> Counter \<Rightarrow> int outcome \<times> Counter" where
  "Counter_get_count c s = (Return (c_count s), s)"

definition Counter_reset :: "ctx \<Rightarrow> Counter \<Rightarrow> unit outcome \<times> Counter" where
  "Counter_reset c s =
     (let s1 = s\<lparr>c_count := 0\<rparr>;
          s2 = s1\<lparr>c_events := event ''Reset'' [] (c_events s1)\<rparr>
      in (Return (), s2))"

text \<open>
  The state-changing operations of the counter, and a transaction sequence: each call runs
  on the object the previous one left; an exception would stop the sequence.
\<close>

datatype Counter_call = Increment | Decrement | Reset

fun Counter_invoke :: "ctx \<Rightarrow> Counter_call \<Rightarrow> Counter \<Rightarrow> unit outcome \<times> Counter" where
  "Counter_invoke c Increment s = Counter_increment c s"
| "Counter_invoke c Decrement s = Counter_decrement c s"
| "Counter_invoke c Reset s = Counter_reset c s"

fun Counter_run :: "ctx \<Rightarrow> Counter_call list \<Rightarrow> Counter \<Rightarrow> unit outcome \<times> Counter" where
  "Counter_run c [] s = (Return (), s)"
| "Counter_run c (x # xs) s =
     (case Counter_invoke c x s of
        (Return u, s') \<Rightarrow> Counter_run c xs s'
      | (Raise e, s') \<Rightarrow> (Raise e, s'))"

section \<open>contracts/SimpleStorage.py\<close>

record SimpleStorage =
  ss_stored_data :: int
  ss_events :: event_log

definition SimpleStorage_init :: SimpleStorage where
  "SimpleStorage_init = \<lparr>ss_stored_data = 0, ss_events = []\<rparr>"

definition SimpleStorage_get :: "ctx \<Rightarrow> SimpleStorage \<Rightarrow> int outcome \<times> SimpleStorage" where
  "SimpleStorage_get c s = (Return (ss_stored_data s), s)"

section \<open>my_project/contracts/BeginnerToken.py\<close>

text \<open>
  Every \<open>raise\<close> of the source is a branch that gives back the exception and the object as
  it stands at that point. \<open>self.balances[sender] -= amount\<close> in \<open>burn\<close> reads the key with
  \<open>[]\<close>, which raises \<open>KeyError\<close> on an absent key.
\<close>

record BeginnerToken =
  bt_name :: string
  bt_symbol :: string
  bt_total_supply :: int
  bt_balances :: "(string, int) dict"
  bt_owner :: string
  bt_events :: event_log

definition BeginnerToken_init :: "ctx \<Rightarrow> BeginnerToken" where
  "BeginnerToken_init c =
     (let s0 = \<lparr>bt_name = ''BeginnerCoin'', bt_symbol = ''BGN'', bt_total_supply = 1000000,
                bt_balances = [], bt_owner = msg_sender c, bt_events = []\<rparr>
      in s0\<lparr>bt_balances := dict_set (bt_balances s0) (bt_owner s0) (bt_total_supply s0)\<rparr>)"

definition BeginnerToken_transfer ::
  "ctx \<Rightarrow> string \<Rightarrow> int \<Rightarrow> BeginnerToken \<Rightarrow> unit outcome \<times> BeginnerToken" where
  "BeginnerToken_transfer c to amount s =
     (let sender = msg_sender c in
      if dict_get (bt_balances s) sender 0 < amount then
        (Raise (Exn ''Exception'' ''Not enough tokens!''), s)
      else if amount \<le> 0 then
        (Raise (Exn ''Exception'' ''Amount must be positive!''), s)
      else
        (let s1 = s\<lparr>bt_balances :=
                     dict_set (bt_balances s) sender (dict_get (bt_balances s) sender 0 - amount)\<rparr>;
             s2 = s1\<lparr>bt_balances :=
                     dict_set (bt_balances s1) to (dict_get (bt_balances s1) to 0 + amount)\<rparr>;
             s3 = s2\<lparr>bt_events := event ''Transfer'' [S sender, S to, I amount] (bt_events s2)\<rparr>
         in (Return (), s3)))"

definition BeginnerToken_mint :: "ctx \<Rightarrow> int \<Rightarrow> BeginnerToken \<Rightarrow> unit outcome \<times> BeginnerToken" where
  "BeginnerToken_mint c amount s =
     (let sender = msg_sender c in
      if sender \<noteq> bt_owner s then
        (Raise (Exn ''Exception'' ''Only owner can mint tokens!''), s)
      else if amount \<le> 0 then
        (Raise (Exn ''Exception'' ''Amount must be positive!''), s)
      else
        (let s1 = s\<lparr>bt_total_supply := bt_total_supply s + amount\<rparr>;
             s2 = s1\<lparr>bt_balances :=
                     dict_set (bt_balances s1) (bt_owner s1)
                       (dict_get (bt_balances s1) (bt_owner s1) 0 + amount)\<rparr>;
             s3 = s2\<lparr>bt_events := event ''Mint'' [S (bt_owner s2), I amount] (bt_events s2)\<rparr>
         in (Return (), s3)))"

definition BeginnerToken_burn :: "ctx \<Rightarrow> int \<Rightarrow> BeginnerToken \<Rightarrow> unit outcome \<times> BeginnerToken" where
  "BeginnerToken_burn c amount s =
     (let sender = msg_sender c in
      if dict_get (bt_balances s) sender 0 < amount then
        (Raise (Exn ''Exception'' ''Not enough tokens to burn!''), s)
      else if amount \<le> 0 then
        (Raise (Exn ''Exception'' ''Amount must be positive!''), s)
      else
        (case map_of (bt_balances s) sender of
           None \<Rightarrow> (Raise (Exn ''KeyError'' sender), s)
         | Some b \<Rightarrow>
             (let s1 = s\<lparr>bt_balances := dict_set (bt_balances s) sender (b - amount)\<rparr>;
                  s2 = s1\<lparr>bt_total_supply := bt_total_supply s1 - amount\<rparr>;
                  s3 = s2\<lparr>bt_events := event ''Burn'' [S sender, I amount] (bt_events s2)\<rparr>
              in (Return (), s3))))"

text \<open>
  The state-changing calls of the token. A run is a list of transactions, each with its own
  call context; a transaction that raises leaves the object as it was when the exception
  was raised, and the next one runs on that object.
\<close>

datatype BeginnerToken_call = Transfer string int | Mint int | Burn int

fun BeginnerToken_invoke ::
  "ctx \<Rightarrow> BeginnerToken_call \<Rightarrow> BeginnerToken \<Rightarrow> unit outcome \<times> BeginnerToken" where
  "BeginnerToken_invoke c (Transfer to amount) s = BeginnerToken_transfer c to amount s"
| "BeginnerToken_invoke c (Mint amount) s = BeginnerToken_mint c amount s"
| "BeginnerToken_invoke c (Burn amount) s = BeginnerToken_burn c amount s"

fun BeginnerToken_run :: "(ctx \<times> BeginnerToken_call) list \<Rightarrow> BeginnerToken \<Rightarrow> BeginnerToken" where
  "BeginnerToken_run [] s = s"
| "BeginnerToken_run ((c, x) # xs) s = BeginnerToken_run xs (snd (BeginnerToken_invoke c x s))"

definition BeginnerToken_get_name :: "ctx \<Rightarrow> BeginnerToken \<Rightarrow> string outcome \<times> BeginnerToken" where
  "BeginnerToken_get_name c s = (Return (bt_name s), s)"

definition BeginnerToken_get_symbol :: "ctx \<Rightarrow> BeginnerToken \<Rightarrow> string outcome \<times> BeginnerToken" where
  "BeginnerToken_get_symbol c s = (Return (bt_symbol s), s)"

definition BeginnerToken_get_total_supply :: "ctx \<Rightarrow> BeginnerToken \<Rightarrow> int outcome \<times> BeginnerToken" where
  "BeginnerToken_get_total_supply c s = (Return (bt_total_supply s), s)"

definition BeginnerToken_balance_of ::
  "ctx \<Rightarrow> string \<Rightarrow> BeginnerToken \<Rightarrow> int outcome \<times> BeginnerToken" where
  "BeginnerToken_balance_of c account s = (Return (dict_get (bt_balances s) account 0), s)"

section \<open>my_project/contracts/StakeToken.py\<close>

text \<open>No method of this contract raises: a guard that fails skips the update.\<close>

record StakeToken =
  st_name :: string
  st_symbol :: string
  st_decimals :: int
  st_total_supply :: int
  st_owner :: int
  st_is_paused :: int
  st_owner_balance :: int
  st_user_balance :: int
  st_user_stake :: int
  st_user_reward :: int
  st_reward_rate :: int
  st_events :: event_log

definition StakeToken_init :: StakeToken where
  "StakeToken_init =
     \<lparr>st_name = ''StakeableToken'', st_symbol = ''STK'', st_decimals = 18,
      st_total_supply = 1000000, st_owner = 1, st_is_paused = 0,
      st_owner_balance = 1000000, st_user_balance = 0,
      st_user_stake = 0, st_user_reward = 0, st_reward_rate = 10, st_events = []\<rparr>"

definition StakeToken_get_name :: "ctx \<Rightarrow> StakeToken \<Rightarrow> string outcome \<times> StakeToken" where
  "StakeToken_get_name c s = (Return (st_name s), s)"

definition StakeToken_get_symbol :: "ctx \<Rightarrow> StakeToken \<Rightarrow> string outcome \<times> StakeToken" where
  "StakeToken_get_symbol c s = (Return (st_symbol s), s)"

definition StakeToken_get_decimals :: "ctx \<Rightarrow> StakeToken \<Rightarrow> int outcome \<times> StakeToken" where
  "StakeToken_get_decimals c s = (Return (st_decimals s), s)"

definition StakeToken_get_total_supply :: "ctx \<Rightarrow> StakeToken \<Rightarrow> int outcome \<times> StakeToken" where
  "StakeToken_get_total_supply c s = (Return (st_total_supply s), s)"

definition StakeToken_balance_of :: "ctx \<Rightarrow> int \<Rightarrow> StakeToken \<Rightarrow> int outcome \<times> StakeToken" where
  "StakeToken_balance_of c account s =
     (if account = 1 then (Return (st_owner_balance s), s) else (Return (st_user_balance s), s))"

definition StakeToken_stake_of :: "ctx \<Rightarrow> int \<Rightarrow> StakeToken \<Rightarrow> int outcome \<times> StakeToken" where
  "StakeToken_stake_of c account s =
     (if account = 1 then (Return 0, s) else (Return (st_user_stake s), s))"

definition StakeToken_reward_of :: "ctx \<Rightarrow> int \<Rightarrow> StakeToken \<Rightarrow> int outcome \<times> StakeToken" where
  "StakeToken_reward_of c account s =
     (if account = 1 then (Return 0, s) else (Return (st_user_reward s), s))"

definition StakeToken_get_reward_rate :: "ctx \<Rightarrow> StakeToken \<Rightarrow> int outcome \<times> StakeToken" where
  "StakeToken_get_reward_rate c s = (Return (st_reward_rate s), s)"

definition StakeToken_transfer ::
  "ctx \<Rightarrow> int \<Rightarrow> int \<Rightarrow> StakeToken \<Rightarrow> unit outcome \<times> StakeToken" where
  "StakeToken_transfer c to amount s =
     (if st_is_paused s = 1 then
        (Return (), s\<lparr>st_events := event ''TransferFailed'' [S ''Contract is paused''] (st_events s)\<rparr>)
      else if st_owner_balance s \<ge> amount then
        (let s1 = s\<lparr>st_owner_balance := st_owner_balance s - amount\<rparr>;
             s2 = s1\<lparr>st_user_balance := st_user_balance s1 + amount\<rparr>;
             s3 = s2\<lparr>st_events := event ''Transfer'' [I amount, I to] (st_events s2)\<rparr>
         in (Return (), s3))
      else (Return (), s))"

definition StakeToken_mint :: "ctx \<Rightarrow> int \<Rightarrow> StakeToken \<Rightarrow> unit outcome \<times> StakeToken" where
  "StakeToken_mint c amount s =
     (let s1 = s\<lparr>st_total_supply := st_total_supply s + amount\<rparr>;
          s2 = s1\<lparr>st_owner_balance := st_owner_balance s1 + amount\<rparr>;
          s3 = s2\<lparr>st_events := event ''Mint'' [I amount, I (st_total_supply s2)] (st_events s2)\<rparr>
      in (Return (), s3))"

section \<open>my_project/contracts/Defi.py\<close>

text \<open>Python's \<open>//\<close> on integers rounds down, as \<open>div\<close> on \<open>int\<close> does.\<close>

record Defi =
  df_admin :: string
  df_balances :: "(string, int) dict"
  df_total_deposits :: int
  df_interest_rate :: int
  df_last_update :: "(string, int) dict"
  df_events :: event_log

definition Defi_init :: "ctx \<Rightarrow> Defi" where
  "Defi_init c =
     \<lparr>df_admin = msg_sender c, df_balances = [], df_total_deposits = 0,
      df_interest_rate = 500, df_last_update = [], df_events = []\<rparr>"

definition Defi_balance_of :: "ctx \<Rightarrow> string \<Rightarrow> Defi \<Rightarrow> int outcome \<times> Defi" where
  "Defi_balance_of c user s =
     (let stored = dict_get (df_balances s) user 0 in
      if stored = 0 then (Return 0, s)
      else
        (let last = dict_get (df_last_update s) user (block_number c);
             blocks_passed = block_number c - last
         in if blocks_passed > 0 then
              (let interest = stored * df_interest_rate s * blocks_passed div 100000
               in (Return (stored + interest), s))
            else (Return stored, s)))"

definition Defi_get_total_deposits :: "ctx \<Rightarrow> Defi \<Rightarrow> int outcome \<times> Defi" where
  "Defi_get_total_deposits c s = (Return (df_total_deposits s), s)"

section \<open>my_project/contracts/mint.py\<close>

record MintableToken =
  mt_name :: string
  mt_symbol :: string
  mt_decimals :: int
  mt_admin :: string
  mt_total_supply :: int
  mt_balances :: "(string, int) dict"
  mt_events :: event_log

definition MintableToken_init :: "ctx \<Rightarrow> MintableToken" where
  "MintableToken_init c =
     \<lparr>mt_name = ''MintableToken'', mt_symbol = ''MINT'', mt_decimals = 18,
      mt_admin = msg_sender c, mt_total_supply = 0, mt_balances = [], mt_events = []\<rparr>"

definition MintableToken_balance_of ::
  "ctx \<Rightarrow> string \<Rightarrow> MintableToken \<Rightarrow> int outcome \<times> MintableToken" where
  "MintableToken_balance_of c user s = (Return (dict_get (mt_balances s) user 0), s)"

definition MintableToken_get_total_supply :: "ctx \<Rightarrow> MintableToken \<Rightarrow> int outcome \<times> MintableToken" where
  "MintableToken_get_total_supply c s = (Return (mt_total_supply s), s)"

definition MintableToken_get_name :: "ctx \<Rightarrow> MintableToken \<Rightarrow> string outcome \<times> MintableToken" where
  "MintableToken_get_name c s = (Return (mt_name s), s)"

definition MintableToken_get_symbol :: "ctx \<Rightarrow> MintableToken \<Rightarrow> string outcome \<times> MintableToken" where
  "MintableToken_get_symbol c s = (Return (mt_symbol s), s)"

definition MintableToken_get_decimals :: "ctx \<Rightarrow> MintableToken \<Rightarrow> int outcome \<times> MintableToken" where
  "MintableToken_get_decimals c s = (Return (mt_decimals s), s)"

section \<open>examples/stake_token_examples.py and test_stake_transactions.py: submitting a transaction\<close>

text \<open>
  The scripts talk to a remote node through the web3 and eth-account libraries. Those are
  outside the repository, so each call into them is answered by the environment: a record
  of replies, one per call the code makes, where a reply is either the value the library
  gives back or the exception it raises. The theorems below hold for every such record.
\<close>

text \<open>
  The transaction dictionary handed to \<open>build_transaction\<close>, together with the contract call
  it is built for.
\<close>

record tx =
  tx_call :: string
  tx_from :: string
  tx_gas :: int
  tx_gasPrice :: int
  tx_nonce :: int
  tx_chainId :: int

text \<open>
  \<open>get_transaction_count\<close>: the account's transaction count as the node reports it.
  \<open>gas_price\<close>: the node's current gas price. \<open>build_transaction\<close> and
  \<open>sign_transaction\<close>: the exception raised, if any. \<open>send_raw_transaction k\<close>: what the node
  answers to the submission numbered \<open>k\<close> (from 0) of the signed transaction, the hash in
  hex when it accepts. \<open>wait_for_transaction_receipt\<close>: the status of the receipt, or the
  exception raised while waiting (\<open>TimeExhausted\<close> once the deadline has passed).
\<close>

record replies =
  get_transaction_count :: "exn + int"
  gas_price :: "exn + int"
  build_transaction :: "exn option"
  sign_transaction :: "exn option"
  send_raw_transaction :: "nat \<Rightarrow> exn + string"
  wait_for_transaction_receipt :: "exn + int"

text \<open>
  What a run does to the outside world, in order: a signed transaction handed to
  \<open>send_raw_transaction\<close>, a wait for the receipt of a hash with its deadline in seconds,
  and the lines printed.
\<close>

datatype io =
    Broadcast tx
  | PrintSent string
  | Wait string int
  | PrintSuccessful
  | PrintFailed
  | PrintTestFailed exn

text \<open>
  \<open>StakeTokenInteractor.send_transaction\<close>. Nothing in it catches an exception, so the first
  call that raises ends the run with that exception.
\<close>

definition send_transaction ::
  "string \<Rightarrow> string \<Rightarrow> int \<Rightarrow> replies \<Rightarrow> string option outcome \<times> io list" where
  "send_transaction address function_call gas_limit r =
     (case get_transaction_count r of
        Inl e \<Rightarrow> (Raise e, [])
      | Inr nonce \<Rightarrow>
     (case gas_price r of
        Inl e \<Rightarrow> (Raise e, [])
      | Inr price \<Rightarrow>
     (case build_transaction r of
        Some e \<Rightarrow> (Raise e, [])
      | None \<Rightarrow>
     (let tx = \<lparr>tx_call = function_call, tx_from = address, tx_gas = gas_limit,
                 tx_gasPrice = price, tx_nonce = nonce, tx_chainId = 43113\<rparr> in
      case sign_transaction r of
        Some e \<Rightarrow> (Raise e, [])
      | None \<Rightarrow>
     (case send_raw_transaction r 0 of
        Inl e \<Rightarrow> (Raise e, [Broadcast tx])
      | Inr tx_hash \<Rightarrow>
     (case wait_for_transaction_receipt r of
        Inl e \<Rightarrow> (Raise e, [Broadcast tx, PrintSent tx_hash, Wait tx_hash 300])
      | Inr status \<Rightarrow>
          if status = 1 then
            (Return (Some tx_hash),
             [Broadcast tx, PrintSent tx_hash, Wait tx_hash 300, PrintSuccessful])
          else
            (Return None,
             [Broadcast tx, PrintSent tx_hash, Wait tx_hash 300, PrintFailed])))))))"

text \<open>
  The mint and transfer blocks of \<open>test_stake_transactions\<close>, from the nonce lookup on: the
  same steps written out inline, inside a \<open>try\<close> whose handler prints the exception; the
  script then goes on to the next block.
\<close>

definition test_transaction :: "string \<Rightarrow> string \<Rightarrow> int \<Rightarrow> replies \<Rightarrow> io list" where
  "test_transaction address function_call gas r =
     (case get_transaction_count r of
        Inl e \<Rightarrow> [PrintTestFailed e]
      | Inr nonce \<Rightarrow>
     (case gas_price r of
        Inl e \<Rightarrow> [PrintTestFailed e]
      | Inr price \<Rightarrow>
     (case build_transaction r of
        Some e \<Rightarrow> [PrintTestFailed e]
      | None \<Rightarrow>
     (let tx = \<lparr>tx_call = function_call, tx_from = address, tx_gas = gas,
                 tx_gasPrice = price, tx_nonce = nonce, tx_chainId = 43113\<rparr> in
      case sign_transaction r of
        Some e \<Rightarrow> [PrintTestFailed e]
      | None \<Rightarrow>
     (case send_raw_transaction r 0 of
        Inl e \<Rightarrow> [Broadcast tx, PrintTestFailed e]
      | Inr tx_hash \<Rightarrow>
     (case wait_for_transaction_receipt r of
        Inl e \<Rightarrow> [Broadcast tx, PrintSent tx_hash, Wait tx_hash 300, PrintTestFailed e]
      | Inr status \<Rightarrow>
          if status = 1 then [Broadcast tx, PrintSent tx_hash, Wait tx_hash 300, PrintSuccessful]
          else [Broadcast tx, PrintSent tx_hash, Wait tx_hash 300, PrintFailed]))))))"

text \<open>The blocks of one run of the test script that get as far as the nonce lookup.\<close>

fun test_session :: "string \<Rightarrow> (string \<times> int \<times> replies) list \<Rightarrow> io list" where
  "test_session address [] = []"
| "test_session address ((function_call, gas, r) # rest) =
     test_transaction address function_call gas r @ test_session address rest"

section \<open>Properties\<close>

text \<open>The nonces of the transactions handed to \<open>send_raw_transaction\<close>, in order.\<close>

fun nonces :: "io list \<Rightarrow> int list" where
  "nonces [] = []"
| "nonces (Broadcast t # xs) = tx_nonce t # nonces xs"
| "nonces (x # xs) = nonces xs"

text \<open>A sequence that goes up by exactly one at each step: no gap, no repeat.\<close>

fun consecutive :: "int list \<Rightarrow> bool" where
  "consecutive (x # y # ys) = (y = x + 1 \<and> consecutive (y # ys))"
| "consecutive xs = True"

text \<open>
  The count the node reported to a submission that got as far as the broadcast; nothing
  for a submission that failed before.
\<close>

definition node_nonce :: "replies \<Rightarrow> int list" where
  "node_nonce r =
     (case get_transaction_count r of
        Inl e \<Rightarrow> []
      | Inr n \<Rightarrow>
     (case gas_price r of
        Inl e \<Rightarrow> []
      | Inr p \<Rightarrow>
     (case build_transaction r of
        Some e \<Rightarrow> []
      | None \<Rightarrow>
     (case sign_transaction r of
        Some e \<Rightarrow> []
      | None \<Rightarrow> [n]))))"

text \<open>The sum of all values of a balances mapping.\<close>

definition dict_total :: "('k, int) dict \<Rightarrow> int" where
  "dict_total d = sum_list (map snd d)"

text \<open>
  The supply invariant of BeginnerToken: the balances add up to the total supply (and the
  mapping is a dict: no key twice).
\<close>

definition supply_inv :: "BeginnerToken \<Rightarrow> bool" where
  "supply_inv s =
     (distinct (map fst (bt_balances s)) \<and> dict_total (bt_balances s) = bt_total_supply s)"

section \<open>Concrete inputs\<close>

definition alice :: ctx where
  "alice = \<lparr>msg_sender = ''0xA11CE'', block_number = 1\<rparr>"

text \<open>
  A node that accepts the transaction and reports no receipt before the deadline: the
  transaction stays pending.
\<close>

definition r_pending :: replies where
  "r_pending =
     \<lparr>get_transaction_count = Inr 5, gas_price = Inr 25, build_transaction = None,
      sign_transaction = None, send_raw_transaction = (\<lambda>k. Inr ''0xaa''),
      wait_for_transaction_receipt = Inl (Exn ''TimeExhausted'' ''timed out'')\<rparr>"

text \<open>
  The same node a moment later: the pending transaction is not in a block yet, so the
  count is still 5; this time the receipt arrives with status 1.
\<close>

definition r_mined :: replies where
  "r_mined =
     \<lparr>get_transaction_count = Inr 5, gas_price = Inr 25, build_transaction = None,
      sign_transaction = None, send_raw_transaction = (\<lambda>k. Inr ''0xbb''),
      wait_for_transaction_receipt = Inr 1\<rparr>"

text \<open>
  A connection that drops on the first submission; the node would accept the second.
\<close>

definition r_transient :: replies where
  "r_transient =
     \<lparr>get_transaction_count = Inr 5, gas_price = Inr 25, build_transaction = None,
      sign_transaction = None,
      send_raw_transaction =
        (\<lambda>k. if k = 0 then Inl (Exn ''ConnectionError'' ''connection reset'') else Inr ''0xaa''),
      wait_for_transaction_receipt = Inr 1\<rparr>"

text \<open>A signing key that the signer rejects.\<close>

definition r_badkey :: replies where
  "r_badkey =
     \<lparr>get_transaction_count = Inr 5, gas_price = Inr 25, build_transaction = None,
      sign_transaction = Some (Exn ''ValueError'' ''invalid private key''),
      send_raw_transaction = (\<lambda>k. Inr ''0xaa''),
      wait_for_transaction_receipt = Inr 1\<rparr>"

section \<open>Helper lemmas\<close>

lemmas view_defs =
  Counter_get_count_def SimpleStorage_get_def
  BeginnerToken_get_name_def BeginnerToken_get_symbol_def BeginnerToken_get_total_supply_def
  BeginnerToken_balance_of_def
  StakeToken_get_name_def StakeToken_get_symbol_def StakeToken_get_decimals_def
  StakeToken_get_total_supply_def StakeToken_balance_of_def StakeToken_stake_of_def
  StakeToken_reward_of_def StakeToken_get_reward_rate_def
  Defi_balance_of_def Defi_get_total_deposits_def
  MintableToken_balance_of_def MintableToken_get_total_supply_def MintableToken_get_name_def
  MintableToken_get_symbol_def MintableToken_get_decimals_def

lemmas BeginnerToken_defs =
  BeginnerToken_init_def BeginnerToken_transfer_def BeginnerToken_mint_def BeginnerToken_burn_def

lemma Counter_invoke_returns: "fst (Counter_invoke c x s) = Return ()"
  by (cases x) (simp_all add: Counter_increment_def Counter_decrement_def Counter_reset_def Let_def)

lemma Counter_invoke_nonneg: "0 \<le> c_count s \<Longrightarrow> 0 \<le> c_count (snd (Counter_invoke c x s))"
  by (cases x) (simp_all add: Counter_increment_def Counter_decrement_def Counter_reset_def Let_def)

lemma Counter_run_nonneg:
  "0 \<le> c_count s \<Longrightarrow> 0 \<le> c_count (snd (Counter_run c xs s))"
proof (induction xs arbitrary: s)
  case Nil
  then show ?case by simp
next
  case (Cons x xs)
  obtain s' where step: "Counter_invoke c x s = (Return (), s')"
    using Counter_invoke_returns [of c x s] by (cases "Counter_invoke c x s") simp
  with Cons.prems Counter_invoke_nonneg [of s c x] have "0 \<le> c_count s'" by simp
  with Cons.IH step show ?case by simp
qed

lemma Counter_run_returns: "fst (Counter_run c xs s) = Return ()"
proof (induction xs arbitrary: s)
  case Nil
  then show ?case by simp
next
  case (Cons x xs)
  obtain s' where step: "Counter_invoke c x s = (Return (), s')"
    using Counter_invoke_returns [of c x s] by (cases "Counter_invoke c x s") simp
  with Cons.IH show ?case by simp
qed

lemma dict_get_absent: "k \<notin> fst ` set d \<Longrightarrow> dict_get d k z = z"
  by (simp add: dict_get_def map_of_eq_None_iff [THEN iffD2])

lemma dict_set_keys: "set (map fst (dict_set d k v)) = insert k (set (map fst d))"
  by (induction d k v rule: dict_set.induct) auto

lemma dict_set_distinct: "distinct (map fst d) \<Longrightarrow> distinct (map fst (dict_set d k v))"
proof (induction d)
  case Nil
  then show ?case by simp
next
  case (Cons p d)
  obtain k' v' where p: "p = (k', v')" by (cases p)
  from Cons.prems p have "k' \<notin> set (map fst d)" and "distinct (map fst d)" by simp_all
  with Cons.IH p dict_set_keys [of d k v] show ?case by auto
qed

text \<open>Storing under a key changes the sum by the difference to what the key read before.\<close>

lemma dict_set_total: "dict_total (dict_set d k v) = dict_total d - dict_get d k 0 + v"
  by (induction d) (auto simp: dict_total_def dict_get_def)

lemma dict_get_set: "dict_get (dict_set d k v) k' z = (if k' = k then v else dict_get d k' z)"
  by (induction d) (auto simp: dict_get_def)

lemma supply_inv_init: "supply_inv (BeginnerToken_init c)"
  by (simp add: supply_inv_def BeginnerToken_init_def dict_total_def)

lemma transfer_inv:
  assumes "supply_inv s" and "BeginnerToken_transfer c to amount s = (Return (), s')"
  shows "supply_inv s'"
  using assms
  by (auto simp: supply_inv_def BeginnerToken_transfer_def Let_def dict_set_distinct
      dict_set_total dict_get_set split: if_splits)

lemma mint_inv:
  assumes "supply_inv s" and "BeginnerToken_mint c amount s = (Return (), s')"
  shows "supply_inv s'"
  using assms
  by (auto simp: supply_inv_def BeginnerToken_mint_def Let_def dict_set_distinct
      dict_set_total dict_get_set split: if_splits)

lemma burn_inv:
  assumes "supply_inv s" and "BeginnerToken_burn c amount s = (Return (), s')"
  shows "supply_inv s'"
  using assms
  by (auto simp: supply_inv_def BeginnerToken_burn_def Let_def dict_set_distinct
      dict_set_total dict_get_def split: if_splits option.splits)

lemma invoke_inv:
  assumes "supply_inv s" and "BeginnerToken_invoke c x s = (Return (), s')"
  shows "supply_inv s'"
  using assms by (cases x) (auto intro: transfer_inv mint_inv burn_inv)

lemma raise_unchanged: "BeginnerToken_invoke c x s = (Raise e, s') \<Longrightarrow> s' = s"
  by (cases x)
    (auto simp: BeginnerToken_transfer_def BeginnerToken_mint_def BeginnerToken_burn_def Let_def
      split: if_splits option.splits)

lemma invoke_inv_snd: "supply_inv s \<Longrightarrow> supply_inv (snd (BeginnerToken_invoke c x s))"
proof -
  assume inv: "supply_inv s"
  obtain r s' where step: "BeginnerToken_invoke c x s = (r, s')"
    by (cases "BeginnerToken_invoke c x s")
  show ?thesis
  proof (cases r)
    case (Return u)
    with step inv invoke_inv [of s c x s'] show ?thesis by simp
  next
    case (Raise e)
    with step inv raise_unchanged [of c x s e s'] show ?thesis by simp
  qed
qed

lemma run_inv: "supply_inv s \<Longrightarrow> supply_inv (BeginnerToken_run xs s)"
  by (induction xs s rule: BeginnerToken_run.induct) (simp_all add: invoke_inv_snd)

lemma burn_no_KeyError: "fst (BeginnerToken_burn c amount s) \<noteq> Raise (Exn ''KeyError'' k)"
  by (auto simp: BeginnerToken_burn_def Let_def dict_get_def split: option.splits)

lemma nonces_append: "nonces (xs @ ys) = nonces xs @ nonces ys"
  by (induction xs rule: nonces.induct) simp_all

lemma nonces_send_transaction: "nonces (snd (send_transaction a fc g r)) = node_nonce r"
  by (auto simp: send_transaction_def node_nonce_def Let_def split: sum.splits option.splits)

lemma nonces_test_transaction: "nonces (test_transaction a fc g r) = node_nonce r"
  by (auto simp: test_transaction_def node_nonce_def Let_def split: sum.splits option.splits)

lemma nonces_test_session:
  "nonces (test_session a xs) = concat (map (\<lambda>(fc, g, r). node_nonce r) xs)"
  by (induction a xs rule: test_session.induct)
    (simp_all add: nonces_append nonces_test_transaction)

section \<open>Counter\<close>

text \<open>
  C6. From a freshly constructed Counter (count 0, no events), three increments in a row
  all return normally; reading the count then gives 3 and leaves the object alone, and the
  event log holds exactly the three Incremented events with payloads 1, 2, 3 in that order.
\<close>

theorem Counter_three_increments:
  "Counter_run c [Increment, Increment, Increment] Counter_init =
     (Return (), \<lparr>c_count = 3, c_events =
        [(''Incremented'', [I 1]), (''Incremented'', [I 2]), (''Incremented'', [I 3])]\<rparr>)
   \<and> Counter_get_count c (snd (Counter_run c [Increment, Increment, Increment] Counter_init)) =
     (Return 3, snd (Counter_run c [Increment, Increment, Increment] Counter_init))"
  by (simp add: Counter_init_def Counter_increment_def Counter_get_count_def event_def Let_def)

text \<open>
  C8. Starting from a fresh Counter, every sequence of increment, decrement and reset runs
  to the end without an exception and leaves count at or above zero; the same holds from any
  state whose count is not negative. Decrement on a count of zero returns normally and
  changes nothing: the count stays zero and no event is emitted.
\<close>

theorem Counter_count_nonneg:
  "fst (Counter_run c xs Counter_init) = Return ()
   \<and> 0 \<le> c_count (snd (Counter_run c xs Counter_init))
   \<and> (0 \<le> c_count s \<longrightarrow> 0 \<le> c_count (snd (Counter_run c xs s)))
   \<and> (c_count s = 0 \<longrightarrow> Counter_decrement c s = (Return (), s))"
proof -
  have "0 \<le> c_count Counter_init" by (simp add: Counter_init_def)
  then have "0 \<le> c_count (snd (Counter_run c xs Counter_init))" by (rule Counter_run_nonneg)
  moreover have "c_count s = 0 \<longrightarrow> Counter_decrement c s = (Return (), s)"
    by (simp add: Counter_decrement_def)
  ultimately show ?thesis
    using Counter_run_returns [of c xs Counter_init] Counter_run_nonneg [of s c xs] by blast
qed

text \<open>
  The invariant on two runs that decrement at zero, and decrement on the fresh counter.
\<close>

theorem Counter_count_nonneg_witness:
  "c_count (snd (Counter_run alice
       [Decrement, Increment, Decrement, Decrement, Reset, Decrement] Counter_init)) = 0
   \<and> 0 \<le> c_count (snd (Counter_run alice
       [Decrement, Increment, Decrement, Decrement, Reset, Decrement] Counter_init))
   \<and> 0 \<le> c_count (snd (Counter_run alice
       [Decrement, Decrement, Increment] \<lparr>c_count = 1, c_events = []\<rparr>))
   \<and> Counter_decrement alice Counter_init = (Return (), Counter_init)"
  using Counter_count_nonneg [of alice
      "[Decrement, Increment, Decrement, Decrement, Reset, Decrement]" Counter_init]
    Counter_count_nonneg [of alice
      "[Decrement, Decrement, Increment]" "\<lparr>c_count = 1, c_events = []\<rparr>"]
  by (simp add: Counter_init_def Counter_increment_def Counter_decrement_def Counter_reset_def
      event_def Let_def)

section \<open>Read operations\<close>

text \<open>
  C3. Every method tagged \<open>view_function\<close>, in every contract, gives back the object exactly
  as it received it: no attribute and no event-log entry changes. So a read that follows
  another read sees what it would have seen without it; in particular
  \<open>Defi.balance_of\<close>, which adds the pending interest to the value it returns and stores
  nothing.
\<close>

theorem views_leave_state:
  "snd (Counter_get_count c s_c) = s_c
   \<and> snd (SimpleStorage_get c s_ss) = s_ss
   \<and> snd (BeginnerToken_get_name c s_bt) = s_bt
   \<and> snd (BeginnerToken_get_symbol c s_bt) = s_bt
   \<and> snd (BeginnerToken_get_total_supply c s_bt) = s_bt
   \<and> snd (BeginnerToken_balance_of c a s_bt) = s_bt
   \<and> snd (StakeToken_get_name c s_st) = s_st
   \<and> snd (StakeToken_get_symbol c s_st) = s_st
   \<and> snd (StakeToken_get_decimals c s_st) = s_st
   \<and> snd (StakeToken_get_total_supply c s_st) = s_st
   \<and> snd (StakeToken_balance_of c n s_st) = s_st
   \<and> snd (StakeToken_stake_of c n s_st) = s_st
   \<and> snd (StakeToken_reward_of c n s_st) = s_st
   \<and> snd (StakeToken_get_reward_rate c s_st) = s_st
   \<and> snd (Defi_balance_of c a s_df) = s_df
   \<and> snd (Defi_get_total_deposits c s_df) = s_df
   \<and> snd (MintableToken_balance_of c a s_mt) = s_mt
   \<and> snd (MintableToken_get_total_supply c s_mt) = s_mt
   \<and> snd (MintableToken_get_name c s_mt) = s_mt
   \<and> snd (MintableToken_get_symbol c s_mt) = s_mt
   \<and> snd (MintableToken_get_decimals c s_mt) = s_mt
   \<and> Defi_balance_of c' a' (snd (Defi_balance_of c a s_df)) = Defi_balance_of c' a' s_df
   \<and> Counter_get_count c' (snd (Counter_get_count c s_c)) = Counter_get_count c' s_c"
  by (simp add: view_defs Let_def)

text \<open>
  C7. Reading a balance under a key that the balances mapping does not hold gives 0 and
  does not fail: \<open>balance_of\<close> of BeginnerToken, of MintableToken and of Defi return 0 for
  an account with no recorded balance. A key missing from \<open>last_update\<close> does not make
  \<open>Defi.balance_of\<close> fail either: it reads as the current block, so no block has passed and
  the stored balance is returned. The one subscript read of a mapping,
  \<open>self.balances[sender]\<close> in \<open>BeginnerToken.burn\<close>, never raises \<open>KeyError\<close>.
\<close>

theorem missing_key_reads_zero:
  "(account \<notin> fst ` set (bt_balances s_bt) \<longrightarrow>
      BeginnerToken_balance_of c account s_bt = (Return 0, s_bt))
   \<and> (account \<notin> fst ` set (mt_balances s_mt) \<longrightarrow>
      MintableToken_balance_of c account s_mt = (Return 0, s_mt))
   \<and> (account \<notin> fst ` set (df_balances s_df) \<longrightarrow>
      Defi_balance_of c account s_df = (Return 0, s_df))
   \<and> (account \<notin> fst ` set (df_last_update s_df) \<longrightarrow>
      Defi_balance_of c account s_df = (Return (dict_get (df_balances s_df) account 0), s_df))
   \<and> fst (BeginnerToken_burn c amount s_bt) \<noteq> Raise (Exn ''KeyError'' k)"
  by (simp add: BeginnerToken_balance_of_def MintableToken_balance_of_def Defi_balance_of_def
      dict_get_absent burn_no_KeyError Let_def)

text \<open>
  On freshly constructed contracts, whose mappings hold the deployer at most, the balance
  of another account reads 0.
\<close>

theorem missing_key_reads_zero_witness:
  "BeginnerToken_balance_of alice ''0xB0B'' (BeginnerToken_init alice) =
     (Return 0, BeginnerToken_init alice)
   \<and> MintableToken_balance_of alice ''0xB0B'' (MintableToken_init alice) =
     (Return 0, MintableToken_init alice)
   \<and> Defi_balance_of alice ''0xB0B'' (Defi_init alice) = (Return 0, Defi_init alice)"
  using missing_key_reads_zero [where account = "''0xB0B''" and c = alice
      and s_bt = "BeginnerToken_init alice" and s_mt = "MintableToken_init alice"
      and s_df = "Defi_init alice"]
  by (simp add: BeginnerToken_init_def MintableToken_init_def Defi_init_def alice_def)

section \<open>BeginnerToken: the supply invariant\<close>

text \<open>
  C9. The balances of a BeginnerToken add up to its total supply. This holds once the
  constructor has run, the deployer holding the whole supply; a transfer, mint or burn that
  returns normally keeps it; one that raises leaves the object as it was, balances and
  total supply included. Hence it holds after every sequence of transactions.
\<close>

theorem BeginnerToken_supply_invariant:
  "supply_inv (BeginnerToken_init c0)
   \<and> dict_get (bt_balances (BeginnerToken_init c0)) (msg_sender c0) 0 =
       bt_total_supply (BeginnerToken_init c0)
   \<and> (supply_inv s \<and> BeginnerToken_invoke c x s = (Return (), s') \<longrightarrow> supply_inv s')
   \<and> (BeginnerToken_invoke c x s = (Raise e, s') \<longrightarrow> s' = s)
   \<and> supply_inv (BeginnerToken_run xs (BeginnerToken_init c0))"
proof -
  have "dict_get (bt_balances (BeginnerToken_init c0)) (msg_sender c0) 0 =
      bt_total_supply (BeginnerToken_init c0)"
    by (simp add: BeginnerToken_init_def dict_get_def)
  moreover have "supply_inv (BeginnerToken_run xs (BeginnerToken_init c0))"
    using supply_inv_init by (rule run_inv)
  ultimately show ?thesis
    using supply_inv_init [of c0] invoke_inv [of s c x s'] raise_unchanged [of c x s e s']
    by blast
qed

text \<open>
  The deployer sends 10 tokens, which keeps the sum, and then tries to send more than it
  holds, which raises and changes nothing.
\<close>

theorem BeginnerToken_supply_invariant_witness:
  "supply_inv (snd (BeginnerToken_invoke alice (Transfer ''0xB0B'' 10) (BeginnerToken_init alice)))
   \<and> bt_balances (snd (BeginnerToken_invoke alice (Transfer ''0xB0B'' 10)
         (BeginnerToken_init alice))) = [(''0xA11CE'', 999990), (''0xB0B'', 10)]
   \<and> BeginnerToken_invoke alice (Transfer ''0xB0B'' 2000000) (BeginnerToken_init alice) =
       (Raise (Exn ''Exception'' ''Not enough tokens!''), BeginnerToken_init alice)"
  using BeginnerToken_supply_invariant [of alice "BeginnerToken_init alice" alice
      "Transfer ''0xB0B'' 10"
      "snd (BeginnerToken_invoke alice (Transfer ''0xB0B'' 10) (BeginnerToken_init alice))"]
  by (simp add: BeginnerToken_defs alice_def dict_get_def event_def Let_def)

section \<open>Writes that would overdraw a balance\<close>

text \<open>
  C2, as stated, fails on StakeToken. The owner balance stands at 100 after a transfer of
  999900 out of the initial 1000000; a further transfer of 150 would take it below zero.
  The call does not fail: it returns normally and has done nothing.
\<close>

theorem StakeToken_overdraw_returns_normally:
  "st_owner_balance (snd (StakeToken_transfer alice 2 999900 StakeToken_init)) = 100
   \<and> StakeToken_transfer alice 2 150 (snd (StakeToken_transfer alice 2 999900 StakeToken_init)) =
       (Return (), snd (StakeToken_transfer alice 2 999900 StakeToken_init))"
  by (simp add: StakeToken_transfer_def StakeToken_init_def event_def Let_def)

text \<open>
  C2, amended. A \<open>BeginnerToken.transfer\<close> of more than the sender holds fails: it raises
  \<open>Exception("Not enough tokens!")\<close> and leaves every attribute and the event log as they
  were. A \<open>StakeToken.transfer\<close> of more than the owner balance, on a contract that is not
  paused, does not fail: it returns normally and leaves every attribute and the event log
  as they were.
\<close>

theorem overdraw_changes_nothing:
  "(dict_get (bt_balances s) (msg_sender c) 0 < amount \<longrightarrow>
      BeginnerToken_transfer c to amount s = (Raise (Exn ''Exception'' ''Not enough tokens!''), s))
   \<and> (st_is_paused t \<noteq> 1 \<and> st_owner_balance t < amount \<longrightarrow>
      StakeToken_transfer c n amount t = (Return (), t))"
  by (simp add: BeginnerToken_transfer_def StakeToken_transfer_def Let_def)

text \<open>
  With a balance of 100 (the deployer has burnt 999900 of its tokens; the owner of the
  StakeToken has transferred 999900 away), a transfer of 150 changes nothing in either
  contract, and the balance still reads 100.
\<close>

theorem overdraw_changes_nothing_witness:
  "dict_get (bt_balances (snd (BeginnerToken_burn alice 999900 (BeginnerToken_init alice))))
       ''0xA11CE'' 0 = 100
   \<and> BeginnerToken_transfer alice ''0xB0B'' 150
         (snd (BeginnerToken_burn alice 999900 (BeginnerToken_init alice))) =
       (Raise (Exn ''Exception'' ''Not enough tokens!''),
        snd (BeginnerToken_burn alice 999900 (BeginnerToken_init alice)))
   \<and> st_owner_balance (snd (StakeToken_transfer alice 2 999900 StakeToken_init)) = 100
   \<and> StakeToken_transfer alice 2 150 (snd (StakeToken_transfer alice 2 999900 StakeToken_init)) =
       (Return (), snd (StakeToken_transfer alice 2 999900 StakeToken_init))"
  using overdraw_changes_nothing [of
      "snd (BeginnerToken_burn alice 999900 (BeginnerToken_init alice))" alice 150 "''0xB0B''"
      "snd (StakeToken_transfer alice 2 999900 StakeToken_init)" 2]
  by (simp add: BeginnerToken_init_def BeginnerToken_burn_def StakeToken_transfer_def
      StakeToken_init_def alice_def dict_get_def event_def Let_def)

section \<open>StakeToken.mint\<close>

text \<open>
  C10. Whoever calls it, whatever the state of the contract (paused or not) and whatever
  the amount (zero and negative amounts included), \<open>StakeToken.mint\<close> returns normally, adds
  the amount to the total supply and to the owner balance, and appends one Mint event
  carrying the amount and the new total supply. Nothing else changes.
\<close>

theorem StakeToken_mint_unconditional:
  "StakeToken_mint c amount s =
     (Return (),
      s\<lparr>st_total_supply := st_total_supply s + amount,
        st_owner_balance := st_owner_balance s + amount,
        st_events := st_events s @ [(''Mint'', [I amount, I (st_total_supply s + amount)])]\<rparr>)"
  by (simp add: StakeToken_mint_def event_def Let_def)

section \<open>Nonces\<close>

text \<open>
  C1, as stated, fails. The first block of the test script broadcasts with nonce 5 and
  times out waiting for the receipt; the handler prints the exception and the script goes
  on. The transaction is still pending, so the node reports a count of 5 to the second
  block as well, which broadcasts with nonce 5 again. With the highest issued nonce
  tracked, \<open>max (5 + 1) 5 = 6\<close> would have been used.
\<close>

theorem nonce_repeated:
  "nonces (test_session ''0xA11CE''
       [(''mint(1000)'', 200000, r_pending), (''transfer(0x01, 100)'', 100000, r_mined)]) = [5, 5]
   \<and> \<not> consecutive (nonces (test_session ''0xA11CE''
       [(''mint(1000)'', 200000, r_pending), (''transfer(0x01, 100)'', 100000, r_mined)]))"
  by (simp add: test_transaction_def r_pending_def r_mined_def)

text \<open>
  C1, amended. No nonce is tracked between submissions: the nonce of each transaction
  handed to broadcast is the transaction count the node reported to that submission, and
  a submission that fails before the broadcast hands over none. So the nonces seen by
  broadcast over a run are the node's reported counts, in order; they go up by one at each
  step exactly when the node's reports do.
\<close>

theorem nonce_is_node_count:
  "nonces (snd (send_transaction a fc g r)) = node_nonce r
   \<and> nonces (test_transaction a fc g r) = node_nonce r
   \<and> nonces (test_session a xs) = concat (map (\<lambda>(fc, g, r). node_nonce r) xs)"
  by (simp add: nonces_send_transaction nonces_test_transaction nonces_test_session)

section \<open>Errors while signing and broadcasting\<close>

text \<open>
  C4, as stated, fails. The connection drops on the first submission, and the node would
  accept a second one. The transaction is handed to the node once; the call ends with the
  connection error and nothing is submitted again.
\<close>

theorem broadcast_not_retried:
  "send_raw_transaction r_transient 1 = Inr ''0xaa''
   \<and> send_transaction ''0xA11CE'' ''mint(1000)'' 200000 r_transient =
       (Raise (Exn ''ConnectionError'' ''connection reset''),
        [Broadcast \<lparr>tx_call = ''mint(1000)'', tx_from = ''0xA11CE'', tx_gas = 200000,
                    tx_gasPrice = 25, tx_nonce = 5, tx_chainId = 43113\<rparr>])"
  by (simp add: send_transaction_def r_transient_def)

text \<open>
  C4, amended. Nothing is retried. Whatever exception the broadcast raises, a transient
  network error as much as a rejection by the node, ends the submission at once with that
  exception, after a single broadcast and with no wait for a receipt; in the test script
  the handler prints it. An exception while signing ends the submission before anything
  is broadcast.
\<close>

theorem broadcast_and_signing_errors_end_submission:
  assumes "get_transaction_count r = Inr n" and "gas_price r = Inr p"
    and "build_transaction r = None"
  shows "(sign_transaction r = Some e \<longrightarrow>
            send_transaction a fc g r = (Raise e, [])
            \<and> test_transaction a fc g r = [PrintTestFailed e])
         \<and> (sign_transaction r = None \<and> send_raw_transaction r 0 = Inl e \<longrightarrow>
            send_transaction a fc g r =
              (Raise e, [Broadcast \<lparr>tx_call = fc, tx_from = a, tx_gas = g, tx_gasPrice = p,
                                    tx_nonce = n, tx_chainId = 43113\<rparr>])
            \<and> test_transaction a fc g r =
              [Broadcast \<lparr>tx_call = fc, tx_from = a, tx_gas = g, tx_gasPrice = p,
                          tx_nonce = n, tx_chainId = 43113\<rparr>, PrintTestFailed e])"
  using assms by (simp add: send_transaction_def test_transaction_def)

text \<open>A rejected signing key, and a connection that drops during the broadcast.\<close>

theorem broadcast_and_signing_errors_end_submission_witness:
  "send_transaction ''0xA11CE'' ''mint(1000)'' 200000 r_badkey =
     (Raise (Exn ''ValueError'' ''invalid private key''), [])
   \<and> test_transaction ''0xA11CE'' ''mint(1000)'' 200000 r_transient =
     [Broadcast \<lparr>tx_call = ''mint(1000)'', tx_from = ''0xA11CE'', tx_gas = 200000,
                 tx_gasPrice = 25, tx_nonce = 5, tx_chainId = 43113\<rparr>,
      PrintTestFailed (Exn ''ConnectionError'' ''connection reset'')]"
proof -
  have b: "get_transaction_count r_badkey = Inr 5" "gas_price r_badkey = Inr 25"
    "build_transaction r_badkey = None"
    "sign_transaction r_badkey = Some (Exn ''ValueError'' ''invalid private key'')"
    by (simp_all add: r_badkey_def)
  have t: "get_transaction_count r_transient = Inr 5" "gas_price r_transient = Inr 25"
    "build_transaction r_transient = None" "sign_transaction r_transient = None"
    "send_raw_transaction r_transient 0 = Inl (Exn ''ConnectionError'' ''connection reset'')"
    by (simp_all add: r_transient_def)
  show ?thesis
    using broadcast_and_signing_errors_end_submission [OF b(1) b(2) b(3),
        of "Exn ''ValueError'' ''invalid private key''" "''0xA11CE''" "''mint(1000)''" 200000]
      broadcast_and_signing_errors_end_submission [OF t(1) t(2) t(3),
        of "Exn ''ConnectionError'' ''connection reset''" "''0xA11CE''" "''mint(1000)''" 200000]
      b(4) t(4) t(5)
    by simp
qed

section \<open>Waiting for the receipt\<close>

text \<open>
  C5, as stated, fails. When the wait for the receipt runs out, \<open>send_transaction\<close> returns
  no result at all: the call ends with the exception raised inside the wait, which nothing
  in the function catches or adds to.
\<close>

theorem timeout_returns_no_result:
  "fst (send_transaction ''0xA11CE'' ''mint(1000)'' 200000 r_pending) =
     Raise (Exn ''TimeExhausted'' ''timed out'')
   \<and> (\<forall>v. fst (send_transaction ''0xA11CE'' ''mint(1000)'' 200000 r_pending) \<noteq> Return v)"
  by (simp add: send_transaction_def r_pending_def)

text \<open>
  C5, amended. When the wait for the receipt, whose deadline is fixed at 300 seconds,
  raises, the submission ends with that very exception (\<open>send_transaction\<close> passes it on
  unchanged; the test script prints it). This differs from both other endings: a receipt
  with status 1 makes \<open>send_transaction\<close> return the hash, any other status makes it return
  \<open>None\<close>. The line giving the transaction hash has been printed before the wait began,
  which is how the caller learns the hash.
\<close>

theorem timeout_raises_after_hash_printed:
  assumes "get_transaction_count r = Inr n" and "gas_price r = Inr p"
    and "build_transaction r = None" and "sign_transaction r = None"
    and "send_raw_transaction r 0 = Inr h" and "wait_for_transaction_receipt r = Inl e"
  shows "send_transaction a fc g r =
           (Raise e, [Broadcast \<lparr>tx_call = fc, tx_from = a, tx_gas = g, tx_gasPrice = p,
                                 tx_nonce = n, tx_chainId = 43113\<rparr>, PrintSent h, Wait h 300])
         \<and> test_transaction a fc g r =
           [Broadcast \<lparr>tx_call = fc, tx_from = a, tx_gas = g, tx_gasPrice = p,
                       tx_nonce = n, tx_chainId = 43113\<rparr>, PrintSent h, Wait h 300,
            PrintTestFailed e]
         \<and> fst (send_transaction a fc g (r\<lparr>wait_for_transaction_receipt := Inr 1\<rparr>)) =
           Return (Some h)
         \<and> (status \<noteq> 1 \<longrightarrow>
            fst (send_transaction a fc g (r\<lparr>wait_for_transaction_receipt := Inr status\<rparr>)) =
              Return None)"
  using assms by (simp add: send_transaction_def test_transaction_def)

text \<open>The pending transaction: the three endings on the same submission.\<close>

theorem timeout_raises_after_hash_printed_witness:
  "send_transaction ''0xA11CE'' ''mint(1000)'' 200000 r_pending =
     (Raise (Exn ''TimeExhausted'' ''timed out''),
      [Broadcast \<lparr>tx_call = ''mint(1000)'', tx_from = ''0xA11CE'', tx_gas = 200000,
                  tx_gasPrice = 25, tx_nonce = 5, tx_chainId = 43113\<rparr>,
       PrintSent ''0xaa'', Wait ''0xaa'' 300])
   \<and> fst (send_transaction ''0xA11CE'' ''mint(1000)'' 200000
            (r_pending\<lparr>wait_for_transaction_receipt := Inr 1\<rparr>)) = Return (Some ''0xaa'')
   \<and> fst (send_transaction ''0xA11CE'' ''mint(1000)'' 200000
            (r_pending\<lparr>wait_for_transaction_receipt := Inr 0\<rparr>)) = Return None"
proof -
  have p: "get_transaction_count r_pending = Inr 5" "gas_price r_pending = Inr 25"
    "build_transaction r_pending = None" "sign_transaction r_pending = None"
    "send_raw_transaction r_pending 0 = Inr ''0xaa''"
    "wait_for_transaction_receipt r_pending = Inl (Exn ''TimeExhausted'' ''timed out'')"
    by (simp_all add: r_pending_def)
  show ?thesis
    using timeout_raises_after_hash_printed [OF p, of "''0xA11CE''" "''mint(1000)''" 200000 0]
    by simp
qed

end
